theory Spec2Isabelle
  imports Complex_Main
begin

section \<open>Bezier curves of sdf/bezier.go\<close>

text \<open>
  The Go type \<open>float64\<close> is modelled by \<^typ>\<open>real\<close>: arithmetic is exact, there is no
  rounding, no NaN and no signed zero. The one place where the code relies on IEEE 754
  infinity (the step of the sampling loop in \<open>Polygon\<close>) has the infinite value written
  out, see \<open>fval\<close> below. Every \<open>panic\<close> of the source is a value of type \<open>error\<close>.
\<close>

subsection \<open>Errors\<close>

datatype error =
    BadPolynomialOrder int   \<comment> \<open>panic "bad polynomial order %d"\<close>
  | FirstNotEndpoint         \<comment> \<open>panic "first control vertex should be an endpoint"\<close>
  | BadVertexType            \<comment> \<open>panic "bad vertex type"\<close>
  | TooFewPoints             \<comment> \<open>panic "bezier curve must have at least two points"\<close>
  | MustStartWithEndpoint    \<comment> \<open>panic "bezier curve must start with an endpoint"\<close>
  | MustEndWithEndpoint      \<comment> \<open>panic "non-closed bezier curve must end with an endpoint"\<close>
  | HandleOnMidpoint         \<comment> \<open>panic "can't place a handle on a curve midpoint"\<close>
  | IndexOutOfRange          \<comment> \<open>the run-time panic of Go on a slice index out of range\<close>

subsection \<open>Helpers of package sdf that bezier.go calls\<close>

record V2 =
  X :: real
  Y :: real

text \<open>Modelled from the spec: the 2D vector primitive and its arithmetic are external
  to bezier.go; \<open>V2.Add\<close> is the componentwise sum.\<close>

definition V2_Add :: "V2 \<Rightarrow> V2 \<Rightarrow> V2" where
  "V2_Add u w = \<lparr>X = X u + X w, Y = Y u + Y w\<rparr>"

text \<open>Modelled from the spec: \<open>V2.Equals\<close> is not part of bezier.go. The spec calls the
  comparison of closure, made with tolerance 0, "coordinate-equal (exact equality, no
  tolerance)"; so two points are equal within a tolerance when neither coordinate differs
  by more than it.\<close>

definition V2_Equals :: "V2 \<Rightarrow> V2 \<Rightarrow> real \<Rightarrow> bool" where
  "V2_Equals u w tolerance \<longleftrightarrow>
     \<bar>X u - X w\<bar> \<le> tolerance \<and> \<bar>Y u - Y w\<bar> \<le> tolerance"

text \<open>Modelled from the spec: \<open>PolarToXY\<close> is not part of bezier.go; the spec names it
  \<open>polarToCartesian\<close>, the point at radius \<open>r\<close> and angle \<open>theta\<close>.\<close>

definition PolarToXY :: "real \<Rightarrow> real \<Rightarrow> V2" where
  "PolarToXY r theta = \<lparr>X = r * cos theta, Y = r * sin theta\<rparr>"

text \<open>Modelled from the spec: \<open>Abs\<close> is not part of bezier.go; it is the absolute value.\<close>

definition Abs :: "real \<Rightarrow> real" where
  "Abs x = \<bar>x\<bar>"


text \<open>Modelled from the spec: \<open>ZeroSmall\<close> is not part of bezier.go. The spec: with \<open>S\<close>
  the sum of the absolute values of the coefficients, "any coefficient with
  |coef| \<le> 1e-12 * S is replaced by 0".\<close>

definition ZeroSmall :: "real \<Rightarrow> real \<Rightarrow> real \<Rightarrow> real" where
  "ZeroSmall x y epsilon = (if \<bar>x\<bar> \<le> epsilon * y then 0 else x)"

definition POLY_EPSILON :: real where
  "POLY_EPSILON = 1 / 10 ^ 12"

text \<open>\<open>math.Atan2\<close> of the Go library on finite arguments.\<close>

definition Atan2 :: "real \<Rightarrow> real \<Rightarrow> real" where
  "Atan2 y x =
     (if 0 < x then arctan (y / x)
      else if x < 0 then (if 0 \<le> y then arctan (y / x) + pi else arctan (y / x) - pi)
      else if 0 < y then pi / 2
      else if y < 0 then - (pi / 2)
      else 0)"

subsection \<open>BezierPolynomial\<close>

text \<open>The fields \<open>n, a, b, c, d, e\<close> of the Go struct carry the prefix \<open>p_\<close>.\<close>

record BezierPolynomial =
  p_n :: int
  p_a :: real
  p_b :: real
  p_c :: real
  p_d :: real
  p_e :: real

text \<open>The zero value of the struct, as in \<open>BezierSpline{}\<close>.\<close>

definition BezierPolynomial_zero :: BezierPolynomial where
  "BezierPolynomial_zero = \<lparr>p_n = 0, p_a = 0, p_b = 0, p_c = 0, p_d = 0, p_e = 0\<rparr>"

definition f0 :: "BezierPolynomial \<Rightarrow> real \<Rightarrow> error + real" where
  "f0 p t =
     (if p_n p = 1 then Inr (p_a p + t * p_b p)
      else if p_n p = 2 then Inr (p_a p + t * (p_b p + t * p_c p))
      else if p_n p = 3 then Inr (p_a p + t * (p_b p + t * (p_c p + t * p_d p)))
      else if p_n p = 4 then
        Inr (p_a p + t * (p_b p + t * (p_c p + t * (p_d p + t * p_e p))))
      else Inl (BadPolynomialOrder (p_n p)))"

definition f1 :: "BezierPolynomial \<Rightarrow> real \<Rightarrow> error + real" where
  "f1 p t =
     (if p_n p = 1 then Inr (p_b p)
      else if p_n p = 2 then Inr (p_b p + t * 2 * p_c p)
      else if p_n p = 3 then Inr (p_b p + t * (2 * p_c p + t * 3 * p_d p))
      else if p_n p = 4 then
        Inr (p_b p + t * (2 * p_c p + t * (3 * p_d p + t * 4 * p_e p)))
      else Inl (BadPolynomialOrder (p_n p)))"

text \<open>The \<open>switch\<close> of \<open>Set\<close>: the order and the coefficients of that order are
  assigned, the other coefficients keep the value they had. The list \<open>x\<close> has
  \<open>p.n + 1\<close> elements, so every index read is in range.\<close>

definition Set_switch :: "BezierPolynomial \<Rightarrow> real list \<Rightarrow> error + BezierPolynomial" where
  "Set_switch p x =
     (let n = int (length x) - 1 in
      if n = 1 then
        Inr (p\<lparr>p_n := n, p_a := x ! 0, p_b := - (x ! 0) + x ! 1\<rparr>)
      else if n = 2 then
        Inr (p\<lparr>p_n := n, p_a := x ! 0, p_b := - 2 * x ! 0 + 2 * x ! 1,
                p_c := x ! 0 - 2 * x ! 1 + x ! 2\<rparr>)
      else if n = 3 then
        Inr (p\<lparr>p_n := n, p_a := x ! 0, p_b := - 3 * x ! 0 + 3 * x ! 1,
                p_c := 3 * x ! 0 - 6 * x ! 1 + 3 * x ! 2,
                p_d := - (x ! 0) + 3 * x ! 1 - 3 * x ! 2 + x ! 3\<rparr>)
      else if n = 4 then
        Inr (p\<lparr>p_n := n, p_a := x ! 0, p_b := - 4 * x ! 0 + 4 * x ! 1,
                p_c := 6 * x ! 0 - 12 * x ! 1 + 6 * x ! 2,
                p_d := - 4 * x ! 0 + 12 * x ! 1 - 12 * x ! 2 + 4 * x ! 3,
                p_e := x ! 0 - 4 * x ! 1 + 6 * x ! 2 - 4 * x ! 3 + x ! 4\<rparr>)
      else Inl (BadPolynomialOrder n))"

text \<open>The sum of the absolute values of the coefficients, and the zeroing of the
  small ones, the last six lines of \<open>Set\<close>.\<close>

definition coeff_sum :: "BezierPolynomial \<Rightarrow> real" where
  "coeff_sum p = Abs (p_a p) + Abs (p_b p) + Abs (p_c p) + Abs (p_d p) + Abs (p_e p)"

definition zero_small_coeffs :: "BezierPolynomial \<Rightarrow> BezierPolynomial" where
  "zero_small_coeffs p =
     (let sum = coeff_sum p in
      p\<lparr>p_a := ZeroSmall (p_a p) sum POLY_EPSILON,
        p_b := ZeroSmall (p_b p) sum POLY_EPSILON,
        p_c := ZeroSmall (p_c p) sum POLY_EPSILON,
        p_d := ZeroSmall (p_d p) sum POLY_EPSILON,
        p_e := ZeroSmall (p_e p) sum POLY_EPSILON\<rparr>)"

definition BezierPolynomial_Set :: "BezierPolynomial \<Rightarrow> real list \<Rightarrow> error + BezierPolynomial" where
  "BezierPolynomial_Set p x =
     (case Set_switch p x of
        Inl err \<Rightarrow> Inl err
      | Inr q \<Rightarrow> Inr (zero_small_coeffs q))"

subsection \<open>BezierSpline\<close>

record BezierSpline =
  px :: BezierPolynomial
  py :: BezierPolynomial

definition BezierSpline_f0 :: "BezierSpline \<Rightarrow> real \<Rightarrow> error + V2" where
  "BezierSpline_f0 s t =
     (case f0 (px s) t of
        Inl err \<Rightarrow> Inl err
      | Inr x \<Rightarrow> (case f0 (py s) t of
                   Inl err \<Rightarrow> Inl err
                 | Inr y \<Rightarrow> Inr \<lparr>X = x, Y = y\<rparr>))"

definition slope :: "BezierSpline \<Rightarrow> real \<Rightarrow> error + real" where
  "slope s t =
     (case f1 (py s) t of
        Inl err \<Rightarrow> Inl err
      | Inr y1 \<Rightarrow> (case f1 (px s) t of
                    Inl err \<Rightarrow> Inl err
                  | Inr x1 \<Rightarrow> Inr (Atan2 y1 x1)))"

definition order :: "BezierSpline \<Rightarrow> int" where
  "order s = p_n (px s)"

definition NewBezierSpline :: "V2 list \<Rightarrow> error + BezierSpline" where
  "NewBezierSpline p =
     (case BezierPolynomial_Set BezierPolynomial_zero (map X p) of
        Inl err \<Rightarrow> Inl err
      | Inr qx \<Rightarrow> (case BezierPolynomial_Set BezierPolynomial_zero (map Y p) of
                    Inl err \<Rightarrow> Inl err
                  | Inr qy \<Rightarrow> Inr \<lparr>px = qx, py = qy\<rparr>))"

subsection \<open>Vertices and curves\<close>

datatype BezierVertexType = ENDPOINT | MIDPOINT

text \<open>A handle is the pair (radius, angle), the radius in the field \<open>X\<close>.\<close>

record BezierVertex =
  vtype :: BezierVertexType
  vertex :: V2
  handle_fwd :: V2
  handle_rev :: V2

record Bezier =
  closed :: bool
  vlist :: "BezierVertex list"

text \<open>The zero value \<open>V2{}\<close>.\<close>

definition V2_zero :: V2 where
  "V2_zero = \<lparr>X = 0, Y = 0\<rparr>"

text \<open>The control vertex \<open>cp\<close> that \<open>handles\<close> makes for a handle \<open>h\<close> of vertex \<open>v\<close>.\<close>

definition control_midpoint :: "V2 \<Rightarrow> BezierVertex \<Rightarrow> BezierVertex" where
  "control_midpoint h v =
     \<lparr>vtype = MIDPOINT, vertex = V2_Add (PolarToXY (X h) (Y h)) (vertex v),
      handle_fwd = V2_zero, handle_rev = V2_zero\<rparr>"

text \<open>One round of the first loop of \<open>handles\<close>: what is appended for the vertex \<open>v\<close>.\<close>

definition expand_vertex :: "BezierVertex \<Rightarrow> BezierVertex list" where
  "expand_vertex v =
     (let fwd_h = handle_fwd v; rev_h = handle_rev v;
          v' = v\<lparr>handle_fwd := V2_zero, handle_rev := V2_zero\<rparr>
      in (if X rev_h \<noteq> 0 then [control_midpoint rev_h v'] else [])
         @ [v']
         @ (if X fwd_h \<noteq> 0 then [control_midpoint fwd_h v'] else []))"

text \<open>The second loop of \<open>handles\<close>: the index of the first endpoint; without any
  endpoint the loop variable ends at the last index, and at 0 on the empty list.\<close>

definition first_endpoint :: "BezierVertex list \<Rightarrow> nat" where
  "first_endpoint vl =
     (if list_ex (\<lambda>v. vtype v = ENDPOINT) vl
      then length (takeWhile (\<lambda>v. vtype v \<noteq> ENDPOINT) vl)
      else length vl - 1)"

definition handles :: "Bezier \<Rightarrow> Bezier" where
  "handles b =
     (let vl = concat (map expand_vertex (vlist b));
          i = first_endpoint vl
      in b\<lparr>vlist := (if i \<noteq> 0 then drop i vl @ take i vl else vl)\<rparr>)"

definition closure :: "Bezier \<Rightarrow> error + Bezier" where
  "closure b =
     (if \<not> closed b then Inr b
      else if vlist b = [] then Inl IndexOutOfRange
      else
        let first = vlist b ! 0; last = vlist b ! (length (vlist b) - 1) in
        if vtype first \<noteq> ENDPOINT then Inl FirstNotEndpoint
        else if vtype last = ENDPOINT then
          (if \<not> V2_Equals (vertex last) (vertex first) 0
           then Inr (b\<lparr>vlist := vlist b @ [first]\<rparr>)
           else Inr b)
        else Inr (b\<lparr>vlist := vlist b @ [first]\<rparr>))"

definition validate :: "Bezier \<Rightarrow> error + Bezier" where
  "validate b =
     (let n = length (vlist b) in
      if n < 2 then Inl TooFewPoints
      else if vtype (vlist b ! 0) \<noteq> ENDPOINT then Inl MustStartWithEndpoint
      else if \<not> closed b \<and> vtype (vlist b ! (n - 1)) \<noteq> ENDPOINT then Inl MustEndWithEndpoint
      else Inr b)"

definition fixups :: "Bezier \<Rightarrow> error + Bezier" where
  "fixups b =
     (case closure (handles b) of
        Inl err \<Rightarrow> Inl err
      | Inr b' \<Rightarrow> validate b')"

subsection \<open>The public API\<close>

definition NewBezier :: Bezier where
  "NewBezier = \<lparr>closed = False, vlist = []\<rparr>"

definition Close :: "Bezier \<Rightarrow> Bezier" where
  "Close b = b\<lparr>closed := True\<rparr>"

text \<open>\<open>AddV2\<close> returns a pointer to the vertex it appended, the last one of the list.\<close>

definition AddV2 :: "Bezier \<Rightarrow> V2 \<Rightarrow> Bezier" where
  "AddV2 b x =
     b\<lparr>vlist := vlist b @ [\<lparr>vtype = ENDPOINT, vertex = x,
                              handle_fwd = V2_zero, handle_rev = V2_zero\<rparr>]\<rparr>"

definition Add :: "Bezier \<Rightarrow> real \<Rightarrow> real \<Rightarrow> Bezier" where
  "Add b x y = AddV2 b \<lparr>X = x, Y = y\<rparr>"

definition Mid :: "BezierVertex \<Rightarrow> BezierVertex" where
  "Mid v = v\<lparr>vtype := MIDPOINT\<rparr>"

text \<open>The methods on \<open>*BezierVertex\<close> change the vertex in place and may panic: the
  result is the vertex after the call and the panic, if any.\<close>

definition HandleFwd :: "real \<Rightarrow> real \<Rightarrow> BezierVertex \<Rightarrow> BezierVertex \<times> error option" where
  "HandleFwd theta r v =
     (if vtype v = MIDPOINT then (v, Some HandleOnMidpoint)
      else (v\<lparr>handle_fwd := \<lparr>X = Abs r, Y = theta\<rparr>\<rparr>, None))"

definition HandleRev :: "real \<Rightarrow> real \<Rightarrow> BezierVertex \<Rightarrow> BezierVertex \<times> error option" where
  "HandleRev theta r v =
     (if vtype v = MIDPOINT then (v, Some HandleOnMidpoint)
      else (v\<lparr>handle_rev := \<lparr>X = Abs r, Y = theta\<rparr>\<rparr>, None))"


text \<open>A call through the pointer that \<open>AddV2\<close> returned, as in \<open>b.Add(5, 10).Mid()\<close>.\<close>

definition on_last :: "(BezierVertex \<Rightarrow> BezierVertex) \<Rightarrow> Bezier \<Rightarrow> Bezier" where
  "on_last f b =
     (if vlist b = [] then b
      else b\<lparr>vlist := butlast (vlist b) @ [f (last (vlist b))]\<rparr>)"

subsection \<open>Polygon: the splines of a vertex list\<close>

text \<open>The first loop of \<open>Polygon\<close>, with its variables \<open>i\<close>, \<open>state\<close>, \<open>vertices\<close> and
  \<open>splines\<close>. \<open>NewBezierSpline\<close> panics on a run that gives no order from 1 to 4. The type
  of \<open>vtype\<close> and \<open>state\<close> has two values, which leaves out the branches of the source
  for any other value.\<close>

function seg_loop ::
  "BezierVertex list \<Rightarrow> nat \<Rightarrow> BezierVertexType \<Rightarrow> V2 list \<Rightarrow> BezierSpline list
     \<Rightarrow> error + BezierSpline list" where
  "seg_loop vl i state vertices splines =
     (if i < length vl then
        (if state = ENDPOINT then
           (if vtype (vl ! i) = ENDPOINT
            then seg_loop vl (i + 1) MIDPOINT [vertex (vl ! i)] splines
            else Inl BadVertexType)
         else
           (if vtype (vl ! i) = ENDPOINT then
              (case NewBezierSpline (vertices @ [vertex (vl ! i)]) of
                 Inl err \<Rightarrow> Inl err
               | Inr s \<Rightarrow>
                   if i = length vl - 1 then Inr (splines @ [s])
                   else seg_loop vl i ENDPOINT (vertices @ [vertex (vl ! i)]) (splines @ [s]))
            else seg_loop vl (i + 1) MIDPOINT (vertices @ [vertex (vl ! i)]) splines))
      else Inr splines)"
  by pat_completeness auto
termination
  by (relation "measure (\<lambda>(vl, i, state, vertices, splines).
        2 * (length vl - i) + (if state = ENDPOINT then 0 else 1))") auto

declare seg_loop.simps [simp del]

definition segment :: "BezierVertex list \<Rightarrow> error + BezierSpline list" where
  "segment vl = seg_loop vl 0 ENDPOINT [] []"

text \<open>A run of more than 3 midpoints: the four vertices from index \<open>k\<close> on are
  midpoints.\<close>

definition four_midpoints_at :: "BezierVertex list \<Rightarrow> nat \<Rightarrow> bool" where
  "four_midpoints_at vl k \<longleftrightarrow>
     k + 3 < length vl \<and> vtype (vl ! k) = MIDPOINT \<and> vtype (vl ! (k + 1)) = MIDPOINT
     \<and> vtype (vl ! (k + 2)) = MIDPOINT \<and> vtype (vl ! (k + 3)) = MIDPOINT"

text \<open>The invariant of the first loop of \<open>Polygon\<close> speaks about the runs at or after an
  index, and about what the loop returns: the panic of \<open>Set\<close> on an order above 4 when
  there is such a run, the list of splines otherwise.\<close>

definition long_run_from :: "BezierVertex list \<Rightarrow> nat \<Rightarrow> bool" where
  "long_run_from vl k0 \<longleftrightarrow> (\<exists>k. k0 \<le> k \<and> four_midpoints_at vl k)"

definition seg_outcome :: "BezierVertex list \<Rightarrow> nat \<Rightarrow> error + BezierSpline list \<Rightarrow> bool" where
  "seg_outcome vl k0 res =
     (if long_run_from vl k0 then \<exists>n. 4 < n \<and> res = Inl (BadPolynomialOrder n)
      else \<exists>ss. res = Inr ss)"

subsection \<open>Polygon: the points of a spline\<close>

text \<open>The loop variable \<open>t\<close> is a finite number or the \<open>+Inf\<close> of IEEE 754: with \<open>dtheta\<close>
  equal to 0 the quotient \<open>epsilon / dtheta\<close> is \<open>+Inf\<close> in Go (no panic), and so are the
  product with \<open>dtmin\<close> and the sum with \<open>t\<close>; then \<open>t < 1.0\<close> is false.\<close>

datatype fval = Fin real | PInf

definition dtmin :: real where
  "dtmin = 1 / (1000 - 1)"

definition epsilon :: real where
  "epsilon = 1 / 10"

definition step_t :: "BezierSpline \<Rightarrow> real \<Rightarrow> error + fval" where
  "step_t s t =
     (case slope s (t + dtmin) of
        Inl err \<Rightarrow> Inl err
      | Inr s1 \<Rightarrow>
          (case slope s t of
             Inl err \<Rightarrow> Inl err
           | Inr s0 \<Rightarrow>
               (let dtheta = Abs (s1 - s0) in
                if dtheta < epsilon then
                  (if dtheta = 0 then Inr PInf
                   else Inr (Fin (t + dtmin * (epsilon / dtheta))))
                else Inr (Fin (t + dtmin)))))"

function sample_loop :: "BezierSpline \<Rightarrow> fval \<Rightarrow> V2 list \<Rightarrow> error + V2 list" where
  "sample_loop s (Fin t) p =
     (if t < 1 then
        (case BezierSpline_f0 s t of
           Inl err \<Rightarrow> Inl err
         | Inr v \<Rightarrow>
             (case step_t s t of
                Inl err \<Rightarrow> Inl err
              | Inr t' \<Rightarrow> sample_loop s t' (p @ [v])))
      else Inr p)"
| "sample_loop s PInf p = Inr p"
  by pat_completeness auto
termination
proof (relation "measure (\<lambda>(s, t, p). case t of Fin x \<Rightarrow> nat \<lceil>(1 - x) * 999\<rceil> | PInf \<Rightarrow> 0)")
  show "wf (measure (\<lambda>(s, t, p). case t of Fin x \<Rightarrow> nat \<lceil>(1 - x) * 999\<rceil> | PInf \<Rightarrow> 0))"
    by simp
next
  fix s :: BezierSpline and t :: real and p :: "V2 list" and v :: V2 and t' :: fval
  assume lt: "t < 1" and st: "step_t s t = Inr t'"
  have pos: "0 < nat \<lceil>(1 - t) * 999\<rceil>"
    using lt by simp
  show "((s, t', p @ [v]), (s, Fin t, p))
          \<in> measure (\<lambda>(s, t, p). case t of Fin x \<Rightarrow> nat \<lceil>(1 - x) * 999\<rceil> | PInf \<Rightarrow> 0)"
  proof (cases t')
    case PInf
    then show ?thesis using pos by simp
  next
    case (Fin x)
    have "t + dtmin \<le> x"
    proof -
      from st obtain s1 s0 where
        s1: "slope s (t + dtmin) = Inr s1" and s0: "slope s t = Inr s0"
        by (auto simp: step_t_def split: sum.splits)
      define dth where "dth = \<bar>s1 - s0\<bar>"
      have nn: "0 \<le> dth" by (simp add: dth_def)
      from st Fin s1 s0 have
        x: "x = (if dth < epsilon then t + dtmin * (epsilon / dth) else t + dtmin)"
        and nz: "dth < epsilon \<longrightarrow> dth \<noteq> 0"
        by (auto simp: step_t_def Let_def Abs_def dth_def split: if_splits)
      show ?thesis
      proof (cases "dth < epsilon")
        case True
        with nz nn have "0 < dth" by simp
        with True have "1 \<le> epsilon / dth" by simp
        then have "dtmin * 1 \<le> dtmin * (epsilon / dth)"
          by (intro mult_left_mono) (simp_all add: dtmin_def)
        with True x show ?thesis by simp
      next
        case False
        with x show ?thesis by simp
      qed
    qed
    then have "(1 - x) * 999 \<le> (1 - t) * 999 - 1"
      by (simp add: dtmin_def)
    then have "\<lceil>(1 - x) * 999\<rceil> \<le> \<lceil>(1 - t) * 999\<rceil> - 1"
      by (metis ceiling_mono ceiling_diff_one)
    with pos Fin show ?thesis by simp
  qed
qed


text \<open>A bound on the rounds that the loop still makes from \<open>t\<close>: every round adds at
  least \<open>dtmin = 1/999\<close> to \<open>t\<close>.\<close>

fun rounds_left :: "fval \<Rightarrow> nat" where
  "rounds_left (Fin x) = nat \<lceil>(1 - x) * 999\<rceil>"
| "rounds_left PInf = 0"

text \<open>The body of the second loop of \<open>Polygon\<close> for the spline \<open>s\<close>, appending to the
  polygon \<open>p\<close>, a list of points.\<close>

definition render_spline :: "BezierSpline \<Rightarrow> V2 list \<Rightarrow> error + V2 list" where
  "render_spline s p =
     (if order s = 1 then
        (case BezierSpline_f0 s 0 of
           Inl err \<Rightarrow> Inl err
         | Inr v0 \<Rightarrow>
             (case BezierSpline_f0 s 1 of
                Inl err \<Rightarrow> Inl err
              | Inr v1 \<Rightarrow> Inr (p @ [v0] @ [v1])))
      else
        (case sample_loop s (Fin 0) p of
           Inl err \<Rightarrow> Inl err
         | Inr p' \<Rightarrow>
             (case BezierSpline_f0 s 1 of
                Inl err \<Rightarrow> Inl err
              | Inr v1 \<Rightarrow> Inr (p' @ [v1]))))"

fun render :: "BezierSpline list \<Rightarrow> V2 list \<Rightarrow> error + V2 list" where
  "render [] p = Inr p"
| "render (s # ss) p =
     (case render_spline s p of
        Inl err \<Rightarrow> Inl err
      | Inr p' \<Rightarrow> render ss p')"

definition Polygon :: "Bezier \<Rightarrow> error + V2 list" where
  "Polygon b =
     (case fixups b of
        Inl err \<Rightarrow> Inl err
      | Inr b' \<Rightarrow>
          (case segment (vlist b') of
             Inl err \<Rightarrow> Inl err
           | Inr splines \<Rightarrow> render splines []))"

section \<open>Properties\<close>

subsection \<open>Coefficients of a polynomial\<close>

lemma Set_switch_2: "Set_switch p [x0, x1] = Inr (p\<lparr>p_n := 1, p_a := x0, p_b := - x0 + x1\<rparr>)"
  by (simp add: Set_switch_def)

lemma Set_switch_3:
  "Set_switch p [x0, x1, x2] =
     Inr (p\<lparr>p_n := 2, p_a := x0, p_b := - 2 * x0 + 2 * x1, p_c := x0 - 2 * x1 + x2\<rparr>)"
  by (simp add: Set_switch_def)



lemma Set_switch_bad:
  "length x < 2 \<or> 5 < length x \<Longrightarrow> Set_switch p x = Inl (BadPolynomialOrder (int (length x) - 1))"
  by (auto simp: Set_switch_def)

lemma Set_switch_ok:
  "2 \<le> length x \<Longrightarrow> length x \<le> 5 \<Longrightarrow> \<exists>q. Set_switch p x = Inr q \<and> p_n q = int (length x) - 1"
  by (auto simp: Set_switch_def Let_def)







subsection \<open>Handles on a vertex\<close>

lemmas api_defs = NewBezier_def Close_def Add_def AddV2_def Mid_def on_last_def V2_zero_def

text \<open>
  Claim C9: on a vertex tagged \<open>MIDPOINT\<close>, \<open>HandleFwd\<close> and \<open>HandleRev\<close> panic with
  "can't place a handle on a curve midpoint" and leave the vertex as it was; on a vertex
  tagged \<open>ENDPOINT\<close> the call succeeds (and stores the handle).
\<close>

theorem handle_on_midpoint_fails:
  "(vtype v = MIDPOINT \<longrightarrow>
      HandleFwd theta r v = (v, Some HandleOnMidpoint) \<and>
      HandleRev theta r v = (v, Some HandleOnMidpoint))
   \<and> (vtype v = ENDPOINT \<longrightarrow>
      snd (HandleFwd theta r v) = None \<and> snd (HandleRev theta r v) = None)"
  by (simp add: HandleFwd_def HandleRev_def)

theorem handle_on_midpoint_fails_witness:
  "HandleFwd 1 2 (Mid (last (vlist (Add NewBezier 5 10))))
     = (Mid (last (vlist (Add NewBezier 5 10))), Some HandleOnMidpoint)
   \<and> HandleRev 1 2 (Mid (last (vlist (Add NewBezier 5 10))))
     = (Mid (last (vlist (Add NewBezier 5 10))), Some HandleOnMidpoint)
   \<and> snd (HandleFwd 1 2 (last (vlist (Add NewBezier 5 10)))) = None
   \<and> snd (HandleRev 1 2 (last (vlist (Add NewBezier 5 10)))) = None"
  using handle_on_midpoint_fails [of "Mid (last (vlist (Add NewBezier 5 10)))" 1 2]
    handle_on_midpoint_fails [of "last (vlist (Add NewBezier 5 10))" 1 2]
  by (simp add: api_defs)

text \<open>
  Claim C10: on an endpoint vertex, \<open>HandleFwd(theta, r)\<close> and \<open>HandleRev(theta, r)\<close> store
  the absolute value of \<open>r\<close> as the radius of the handle, so the radius \<open>-r\<close> gives the same
  vertex as \<open>r\<close>; a handle of radius 0 adds no control midpoint in the expansion of
  \<open>handles\<close>, as if no handle were set.
\<close>

theorem handle_radius_absolute:
  assumes "vtype v = ENDPOINT"
  shows "HandleFwd theta r v = (v\<lparr>handle_fwd := \<lparr>X = \<bar>r\<bar>, Y = theta\<rparr>\<rparr>, None)
    \<and> HandleRev theta r v = (v\<lparr>handle_rev := \<lparr>X = \<bar>r\<bar>, Y = theta\<rparr>\<rparr>, None)
    \<and> HandleFwd theta (- r) v = HandleFwd theta r v
    \<and> HandleRev theta (- r) v = HandleRev theta r v
    \<and> expand_vertex (fst (HandleFwd theta 0 v)) = expand_vertex (v\<lparr>handle_fwd := V2_zero\<rparr>)
    \<and> expand_vertex (fst (HandleRev theta 0 v)) = expand_vertex (v\<lparr>handle_rev := V2_zero\<rparr>)
    \<and> expand_vertex (fst (HandleRev theta 0 (fst (HandleFwd theta 0 v))))
        = [v\<lparr>handle_fwd := V2_zero, handle_rev := V2_zero\<rparr>]"
  using assms
  by (simp add: HandleFwd_def HandleRev_def Abs_def expand_vertex_def V2_zero_def Let_def)

theorem handle_radius_absolute_witness:
  "HandleFwd 1 (- 2) (last (vlist (Add NewBezier 5 10)))
     = (\<lparr>vtype = ENDPOINT, vertex = \<lparr>X = 5, Y = 10\<rparr>,
         handle_fwd = \<lparr>X = 2, Y = 1\<rparr>, handle_rev = \<lparr>X = 0, Y = 0\<rparr>\<rparr>, None)
   \<and> HandleFwd 1 (- 2) (last (vlist (Add NewBezier 5 10)))
     = HandleFwd 1 2 (last (vlist (Add NewBezier 5 10)))
   \<and> expand_vertex (fst (HandleRev 1 0 (fst (HandleFwd 1 0 (last (vlist (Add NewBezier 5 10)))))))
     = [last (vlist (Add NewBezier 5 10))]"
  using handle_radius_absolute [of "last (vlist (Add NewBezier 5 10))" 1 "- 2"]
    handle_radius_absolute [of "last (vlist (Add NewBezier 5 10))" 1 0]
  by (simp add: api_defs)

subsection \<open>Closure\<close>

lemma V2_Equals_0: "V2_Equals u w 0 \<longleftrightarrow> u = w"
  by (auto simp: V2_Equals_def)

text \<open>
  Claim C4: for a closed curve whose vertex list starts with an endpoint, \<open>closure\<close> leaves
  the list as it is when the last vertex is an endpoint with the coordinates of the first,
  appends a copy of the first vertex when the last vertex is an endpoint with other
  coordinates, and appends a copy of the first vertex when the last vertex is a midpoint.
  For a curve that is not closed, \<open>closure\<close> leaves the list as it is.
\<close>

theorem closure_cases:
  "(closed b \<and> vlist b \<noteq> [] \<and> vtype (hd (vlist b)) = ENDPOINT \<longrightarrow>
      (vtype (last (vlist b)) = ENDPOINT \<and> vertex (last (vlist b)) = vertex (hd (vlist b))
         \<longrightarrow> closure b = Inr b)
    \<and> (vtype (last (vlist b)) = ENDPOINT \<and> vertex (last (vlist b)) \<noteq> vertex (hd (vlist b))
         \<longrightarrow> closure b = Inr (b\<lparr>vlist := vlist b @ [hd (vlist b)]\<rparr>))
    \<and> (vtype (last (vlist b)) = MIDPOINT
         \<longrightarrow> closure b = Inr (b\<lparr>vlist := vlist b @ [hd (vlist b)]\<rparr>)))
   \<and> (\<not> closed b \<longrightarrow> closure b = Inr b)"
  by (auto simp: closure_def Let_def V2_Equals_0 hd_conv_nth last_conv_nth)

theorem closure_cases_witness:
  "closure (Close (Add (Add (Add NewBezier 0 0) 10 0) 0 0))
     = Inr (Close (Add (Add (Add NewBezier 0 0) 10 0) 0 0))
   \<and> closure (Close (Add (Add NewBezier 0 0) 10 0))
     = Inr (Close (Add (Add (Add NewBezier 0 0) 10 0) 0 0))
   \<and> closure (Close (on_last Mid (Add (Add NewBezier 0 0) 5 10)))
     = Inr (Close (Add (on_last Mid (Add (Add NewBezier 0 0) 5 10)) 0 0))
   \<and> closure (Add (Add NewBezier 0 0) 10 0) = Inr (Add (Add NewBezier 0 0) 10 0)"
  using closure_cases [of "Close (Add (Add (Add NewBezier 0 0) 10 0) 0 0)"]
    closure_cases [of "Close (Add (Add NewBezier 0 0) 10 0)"]
    closure_cases [of "Close (on_last Mid (Add (Add NewBezier 0 0) 5 10))"]
    closure_cases [of "Add (Add NewBezier 0 0) 10 0"]
  by (simp add: api_defs)

subsection \<open>Validation\<close>

lemma closed_handles [simp]: "closed (handles b) = closed b"
  by (simp add: handles_def Let_def)

lemmas curve_defs = Polygon_def fixups_def handles_def closure_def validate_def
  first_endpoint_def expand_vertex_def api_defs Let_def

text \<open>
  A curve whose expanded vertex list has fewer than 2 vertices, or starts with a midpoint,
  or is open and ends with a midpoint, is rejected with a panic of \<open>validate\<close> or with the
  panic of \<open>closure\<close> on a first vertex that is no endpoint; the closed curve without
  vertices is left aside here.
\<close>

lemma invalid_curve_rejected:
  assumes "length (vlist (handles b)) < 2 \<or> vtype (hd (vlist (handles b))) \<noteq> ENDPOINT
      \<or> (\<not> closed b \<and> vtype (last (vlist (handles b))) \<noteq> ENDPOINT)"
    and "\<not> (closed b \<and> vlist (handles b) = [])"
  shows "Polygon b = Inl TooFewPoints \<or> Polygon b = Inl MustStartWithEndpoint
      \<or> Polygon b = Inl MustEndWithEndpoint \<or> Polygon b = Inl FirstNotEndpoint"
proof (cases "closed b")
  case False
  then have cl: "closure (handles b) = Inr (handles b)"
    by (simp add: closure_def)
  show ?thesis
  proof (cases "length (vlist (handles b)) < 2")
    case True
    with cl show ?thesis
      by (simp add: Polygon_def fixups_def validate_def)
  next
    case long: False
    then have "vlist (handles b) \<noteq> []" by auto
    then have "hd (vlist (handles b)) = vlist (handles b) ! 0"
      and "last (vlist (handles b)) = vlist (handles b) ! (length (vlist (handles b)) - 1)"
      by (simp_all add: hd_conv_nth last_conv_nth)
    with long False assms(1) cl show ?thesis
      by (auto simp: Polygon_def fixups_def validate_def Let_def)
  qed
next
  case True
  with assms have ne: "vlist (handles b) \<noteq> []" by simp
  show ?thesis
  proof (cases "vtype (hd (vlist (handles b))) = ENDPOINT")
    case False
    with True ne have "closure (handles b) = Inl FirstNotEndpoint"
      by (simp add: closure_def hd_conv_nth Let_def)
    then show ?thesis by (simp add: Polygon_def fixups_def)
  next
    case ep: True
    with assms True have "length (vlist (handles b)) < 2" by simp
    with ne obtain v where v: "vlist (handles b) = [v]"
      by (cases "vlist (handles b)") auto
    with ep True have "closure (handles b) = Inr (handles b)"
      by (simp add: closure_def V2_Equals_0)
    with v show ?thesis
      by (simp add: Polygon_def fixups_def validate_def)
  qed
qed

text \<open>
  Claim C5 says that every curve whose expanded vertex list has fewer than 2 vertices
  fails with the validation error. The closed curve without vertices does not: \<open>closure\<close>
  reads \<open>b.vlist[0]\<close> before \<open>validate\<close> looks at the length, and \<open>Polygon\<close> ends in the
  run-time panic of an index out of range.
\<close>

theorem closed_empty_curve_index_panic:
  "Polygon (Close NewBezier) = Inl IndexOutOfRange"
  by (simp add: curve_defs)

subsection \<open>Expansion of handles\<close>





subsection \<open>Splines and the sampling loop\<close>

lemma Set_ok:
  assumes "2 \<le> length x" and "length x \<le> 5"
  shows "\<exists>q. BezierPolynomial_Set p x = Inr q \<and> p_n q = int (length x) - 1"
proof -
  from Set_switch_ok [OF assms] obtain q where "Set_switch p x = Inr q" "p_n q = int (length x) - 1"
    by blast
  then show ?thesis
    by (simp add: BezierPolynomial_Set_def zero_small_coeffs_def Let_def)
qed

lemma Set_bad:
  "length x < 2 \<or> 5 < length x \<Longrightarrow>
     BezierPolynomial_Set p x = Inl (BadPolynomialOrder (int (length x) - 1))"
  by (simp add: BezierPolynomial_Set_def Set_switch_bad)

lemma NewBezierSpline_ok:
  assumes "2 \<le> length pts" and "length pts \<le> 5"
  shows "\<exists>s. NewBezierSpline pts = Inr s \<and> p_n (px s) = int (length pts) - 1
             \<and> p_n (py s) = int (length pts) - 1"
proof -
  from Set_ok [of "map X pts" BezierPolynomial_zero] assms obtain qx where
    "BezierPolynomial_Set BezierPolynomial_zero (map X pts) = Inr qx" "p_n qx = int (length pts) - 1"
    by auto
  moreover from Set_ok [of "map Y pts" BezierPolynomial_zero] assms obtain qy where
    "BezierPolynomial_Set BezierPolynomial_zero (map Y pts) = Inr qy" "p_n qy = int (length pts) - 1"
    by auto
  ultimately show ?thesis by (simp add: NewBezierSpline_def)
qed

lemma NewBezierSpline_bad:
  assumes "length pts < 2 \<or> 5 < length pts"
  shows "NewBezierSpline pts = Inl (BadPolynomialOrder (int (length pts) - 1))"
  using Set_bad [of "map X pts" BezierPolynomial_zero] assms
  by (simp add: NewBezierSpline_def)

lemma NewBezierSpline_orders:
  assumes "NewBezierSpline pts = Inr s"
  shows "2 \<le> length pts \<and> length pts \<le> 5 \<and> p_n (px s) = int (length pts) - 1
     \<and> p_n (py s) = int (length pts) - 1"
proof (cases "2 \<le> length pts \<and> length pts \<le> 5")
  case True
  with NewBezierSpline_ok [of pts] assms show ?thesis by auto
next
  case False
  then have "NewBezierSpline pts = Inl (BadPolynomialOrder (int (length pts) - 1))"
    by (intro NewBezierSpline_bad) auto
  with assms show ?thesis by simp
qed

lemma NewBezierSpline_valid:
  assumes "NewBezierSpline pts = Inr s"
  shows "p_n (px s) \<in> {1, 2, 3, 4}" and "p_n (py s) \<in> {1, 2, 3, 4}"
  using NewBezierSpline_orders [OF assms] by auto

lemma f0_ok: "p_n p \<in> {1, 2, 3, 4} \<Longrightarrow> \<exists>v. f0 p t = Inr v"
  by (auto simp: f0_def)

lemma f1_ok: "p_n p \<in> {1, 2, 3, 4} \<Longrightarrow> \<exists>v. f1 p t = Inr v"
  by (auto simp: f1_def)

lemma BezierSpline_f0_ok:
  assumes "p_n (px s) \<in> {1, 2, 3, 4}" and "p_n (py s) \<in> {1, 2, 3, 4}"
  shows "\<exists>v. BezierSpline_f0 s t = Inr v"
proof -
  from f0_ok [OF assms(1)] obtain x where "f0 (px s) t = Inr x" by blast
  moreover from f0_ok [OF assms(2)] obtain y where "f0 (py s) t = Inr y" by blast
  ultimately show ?thesis by (simp add: BezierSpline_f0_def)
qed

lemma slope_ok:
  assumes "p_n (px s) \<in> {1, 2, 3, 4}" and "p_n (py s) \<in> {1, 2, 3, 4}"
  shows "\<exists>a. slope s t = Inr a"
proof -
  from f1_ok [OF assms(1)] obtain x where "f1 (px s) t = Inr x" by blast
  moreover from f1_ok [OF assms(2)] obtain y where "f1 (py s) t = Inr y" by blast
  ultimately show ?thesis by (simp add: slope_def)
qed

lemma step_t_cases:
  assumes "slope s (t + dtmin) = Inr s1" and "slope s t = Inr s0"
  shows "step_t s t =
     (if \<bar>s1 - s0\<bar> < epsilon
      then (if s1 = s0 then Inr PInf else Inr (Fin (t + dtmin * (epsilon / \<bar>s1 - s0\<bar>))))
      else Inr (Fin (t + dtmin)))"
  using assms by (simp add: step_t_def Let_def Abs_def)

lemma step_t_advance:
  assumes "step_t s t = Inr (Fin x)"
  shows "t + dtmin \<le> x"
proof -
  from assms obtain s1 s0 where
    s1: "slope s (t + dtmin) = Inr s1" and s0: "slope s t = Inr s0"
    by (auto simp: step_t_def split: sum.splits)
  define dth where "dth = \<bar>s1 - s0\<bar>"
  have nn: "0 \<le> dth" by (simp add: dth_def)
  from assms have
    x: "x = (if dth < epsilon then t + dtmin * (epsilon / dth) else t + dtmin)"
    and nz: "dth < epsilon \<longrightarrow> dth \<noteq> 0"
    unfolding step_t_cases [OF s1 s0] dth_def by (auto split: if_splits)
  show ?thesis
  proof (cases "dth < epsilon")
    case True
    with nz nn have "0 < dth" by simp
    with True have "1 \<le> epsilon / dth" by simp
    then have "dtmin * 1 \<le> dtmin * (epsilon / dth)"
      by (intro mult_left_mono) (simp_all add: dtmin_def)
    with True x show ?thesis by simp
  next
    case False
    with x show ?thesis by simp
  qed
qed

lemma step_t_ok:
  assumes "p_n (px s) \<in> {1, 2, 3, 4}" and "p_n (py s) \<in> {1, 2, 3, 4}"
  shows "\<exists>t'. step_t s t = Inr t'"
proof -
  from slope_ok [OF assms] obtain s1 where s1: "slope s (t + dtmin) = Inr s1" by blast
  from slope_ok [OF assms] obtain s0 where s0: "slope s t = Inr s0" by blast
  show ?thesis unfolding step_t_cases [OF s1 s0] by simp
qed

lemma measure_step:
  assumes "t < 1" and "t + dtmin \<le> x"
  shows "nat \<lceil>(1 - x) * 999\<rceil> < nat \<lceil>(1 - t) * 999\<rceil>"
proof -
  have pos: "0 < \<lceil>(1 - t) * 999\<rceil>" using assms(1) by simp
  from assms(2) have "(1 - x) * 999 \<le> (1 - t) * 999 - 1"
    by (simp add: dtmin_def)
  then have "\<lceil>(1 - x) * 999\<rceil> \<le> \<lceil>(1 - t) * 999\<rceil> - 1"
    by (metis ceiling_mono ceiling_diff_one)
  with pos show ?thesis by simp
qed

lemma sample_loop_result:
  assumes "p_n (px s) \<in> {1, 2, 3, 4}" and "p_n (py s) \<in> {1, 2, 3, 4}"
  shows "\<exists>q. sample_loop s t p = Inr (p @ q) \<and> length q \<le> rounds_left t
     \<and> (\<forall>x. t = Fin x \<and> x < 1 \<longrightarrow> q \<noteq> [] \<and> BezierSpline_f0 s x = Inr (hd q))"
  using assms
proof (induction s t p rule: sample_loop.induct)
  case (1 s t p)
  show ?case
  proof (cases "t < 1")
    case False
    then show ?thesis by simp
  next
    case True
    from BezierSpline_f0_ok [OF "1.prems"] obtain v where v: "BezierSpline_f0 s t = Inr v"
      by blast
    from step_t_ok [OF "1.prems"] obtain t' where t': "step_t s t = Inr t'" by blast
    from "1.IH" [OF True v t' "1.prems"] obtain q where
      q: "sample_loop s t' (p @ [v]) = Inr ((p @ [v]) @ q)" "length q \<le> rounds_left t'"
      by blast
    have "rounds_left t' < rounds_left (Fin t)"
    proof (cases t')
      case PInf
      with True show ?thesis by simp
    next
      case (Fin x)
      with t' have "t + dtmin \<le> x" using step_t_advance by blast
      with True Fin show ?thesis using measure_step by simp
    qed
    with q True v t' show ?thesis
      by (intro exI [of _ "v # q"]) simp
  qed
next
  case (2 s p)
  then show ?case by simp
qed


lemma quad_fixups:
  "fixups (Add (on_last Mid (Add (Add NewBezier 0 0) 5 10)) 10 0)
     = Inr (Add (on_last Mid (Add (Add NewBezier 0 0) 5 10)) 10 0)"
  by (simp add: curve_defs)

lemma quad_spline:
  "NewBezierSpline [\<lparr>X = 0, Y = 0\<rparr>, \<lparr>X = 5, Y = 10\<rparr>, \<lparr>X = 10, Y = 0\<rparr>]
     = Inr \<lparr>px = \<lparr>p_n = 2, p_a = 0, p_b = 10, p_c = 0, p_d = 0, p_e = 0\<rparr>,
            py = \<lparr>p_n = 2, p_a = 0, p_b = 20, p_c = - 20, p_d = 0, p_e = 0\<rparr>\<rparr>"
  by (simp add: NewBezierSpline_def BezierPolynomial_Set_def Set_switch_3 zero_small_coeffs_def
      coeff_sum_def ZeroSmall_def POLY_EPSILON_def Abs_def BezierPolynomial_zero_def)

lemma quad_segment:
  "segment (vlist (Add (on_last Mid (Add (Add NewBezier 0 0) 5 10)) 10 0))
     = Inr [\<lparr>px = \<lparr>p_n = 2, p_a = 0, p_b = 10, p_c = 0, p_d = 0, p_e = 0\<rparr>,
             py = \<lparr>p_n = 2, p_a = 0, p_b = 20, p_c = - 20, p_d = 0, p_e = 0\<rparr>\<rparr>]"
  by (simp add: segment_def api_defs seg_loop.simps quad_spline)


text \<open>
  Claim C3: for the open curve endpoint (0,0), midpoint (5,10), endpoint (10,0), \<open>Polygon\<close>
  returns a list of points that starts with (0,0), ends with (10,0) and has between 2 and
  1001 points.
\<close>

theorem quadratic_curve_polygon:
  "\<exists>ps. Polygon (Add (on_last Mid (Add (Add NewBezier 0 0) 5 10)) 10 0) = Inr ps
     \<and> hd ps = \<lparr>X = 0, Y = 0\<rparr> \<and> last ps = \<lparr>X = 10, Y = 0\<rparr>
     \<and> 2 \<le> length ps \<and> length ps \<le> 1001"
proof -
  define s where "s = \<lparr>px = \<lparr>p_n = 2, p_a = 0, p_b = 10, p_c = 0, p_d = 0, p_e = 0\<rparr>,
            py = \<lparr>p_n = 2, p_a = 0, p_b = 20, p_c = - 20, p_d = 0, p_e = 0\<rparr>\<rparr>"
  have valid: "p_n (px s) \<in> {1, 2, 3, 4}" "p_n (py s) \<in> {1, 2, 3, 4}"
    by (simp_all add: s_def)
  have f00: "BezierSpline_f0 s 0 = Inr \<lparr>X = 0, Y = 0\<rparr>"
    and f01: "BezierSpline_f0 s 1 = Inr \<lparr>X = 10, Y = 0\<rparr>"
    by (simp_all add: s_def BezierSpline_f0_def f0_def)
  from sample_loop_result [OF valid, of "Fin 0" "[]"] obtain q where
    q: "sample_loop s (Fin 0) [] = Inr q" "length q \<le> 999" "q \<noteq> []"
       "BezierSpline_f0 s 0 = Inr (hd q)"
    by auto
  have ord: "order s \<noteq> 1" by (simp add: s_def order_def)
  have "render_spline s [] = Inr (q @ [\<lparr>X = 10, Y = 0\<rparr>])"
    using q(1) f01 ord by (simp add: render_spline_def)
  then have "Polygon (Add (on_last Mid (Add (Add NewBezier 0 0) 5 10)) 10 0)
      = Inr (q @ [\<lparr>X = 10, Y = 0\<rparr>])"
    unfolding Polygon_def quad_fixups by (simp add: quad_segment s_def)
  moreover have "hd (q @ [\<lparr>X = 10, Y = 0\<rparr>]) = \<lparr>X = 0, Y = 0\<rparr>"
    using q(3,4) f00 by simp
  moreover have "2 \<le> length (q @ [\<lparr>X = 10, Y = 0\<rparr>])" using q(3) by (cases q) auto
  ultimately show ?thesis using q(2) by auto
qed

lemma line_spline:
  "NewBezierSpline [\<lparr>X = 0, Y = 0\<rparr>, \<lparr>X = 10, Y = 0\<rparr>]
     = Inr \<lparr>px = \<lparr>p_n = 1, p_a = 0, p_b = 10, p_c = 0, p_d = 0, p_e = 0\<rparr>,
            py = \<lparr>p_n = 1, p_a = 0, p_b = 0, p_c = 0, p_d = 0, p_e = 0\<rparr>\<rparr>"
  by (simp add: NewBezierSpline_def BezierPolynomial_Set_def Set_switch_2 zero_small_coeffs_def
      coeff_sum_def ZeroSmall_def POLY_EPSILON_def Abs_def BezierPolynomial_zero_def)

lemma line_polygon:
  "Polygon (Add (Add NewBezier 0 0) 10 0) = Inr [\<lparr>X = 0, Y = 0\<rparr>, \<lparr>X = 10, Y = 0\<rparr>]"
proof -
  have "fixups (Add (Add NewBezier 0 0) 10 0) = Inr (Add (Add NewBezier 0 0) 10 0)"
    by (simp add: curve_defs)
  moreover have "segment (vlist (Add (Add NewBezier 0 0) 10 0))
     = Inr [\<lparr>px = \<lparr>p_n = 1, p_a = 0, p_b = 10, p_c = 0, p_d = 0, p_e = 0\<rparr>,
            py = \<lparr>p_n = 1, p_a = 0, p_b = 0, p_c = 0, p_d = 0, p_e = 0\<rparr>\<rparr>]"
    by (simp add: segment_def api_defs seg_loop.simps line_spline)
  ultimately show ?thesis
    by (simp add: Polygon_def render_spline_def order_def BezierSpline_f0_def f0_def)
qed

text \<open>
  Claim C7: a spline of order 1 adds exactly the two points \<open>f0(0)\<close> and \<open>f0(1)\<close> to the
  polygon; the open curve of the two endpoints (0,0) and (10,0), without handles, gives
  exactly the points (0,0) and (10,0).
\<close>

theorem linear_spline_two_points:
  "(NewBezierSpline pts = Inr s \<and> order s = 1 \<longrightarrow>
      (\<exists>v0 v1. BezierSpline_f0 s 0 = Inr v0 \<and> BezierSpline_f0 s 1 = Inr v1
         \<and> render_spline s p = Inr (p @ [v0, v1])))
   \<and> Polygon (Add (Add NewBezier 0 0) 10 0) = Inr [\<lparr>X = 0, Y = 0\<rparr>, \<lparr>X = 10, Y = 0\<rparr>]"
proof -
  have "\<exists>v0 v1. BezierSpline_f0 s 0 = Inr v0 \<and> BezierSpline_f0 s 1 = Inr v1
         \<and> render_spline s p = Inr (p @ [v0, v1])"
    if new: "NewBezierSpline pts = Inr s" and ord: "order s = 1"
  proof -
    note valid = NewBezierSpline_valid [OF new]
    from BezierSpline_f0_ok [OF valid] obtain v0 where v0: "BezierSpline_f0 s 0 = Inr v0" by blast
    from BezierSpline_f0_ok [OF valid] obtain v1 where v1: "BezierSpline_f0 s 1 = Inr v1" by blast
    from v0 v1 ord show ?thesis by (simp add: render_spline_def)
  qed
  with line_polygon show ?thesis by blast
qed

theorem linear_spline_two_points_witness:
  "render_spline \<lparr>px = \<lparr>p_n = 1, p_a = 0, p_b = 10, p_c = 0, p_d = 0, p_e = 0\<rparr>,
                   py = \<lparr>p_n = 1, p_a = 0, p_b = 0, p_c = 0, p_d = 0, p_e = 0\<rparr>\<rparr> []
     = Inr [\<lparr>X = 0, Y = 0\<rparr>, \<lparr>X = 10, Y = 0\<rparr>]"
  using linear_spline_two_points [of "[\<lparr>X = 0, Y = 0\<rparr>, \<lparr>X = 10, Y = 0\<rparr>]"
      "\<lparr>px = \<lparr>p_n = 1, p_a = 0, p_b = 10, p_c = 0, p_d = 0, p_e = 0\<rparr>,
        py = \<lparr>p_n = 1, p_a = 0, p_b = 0, p_c = 0, p_d = 0, p_e = 0\<rparr>\<rparr>" "[]"]
    line_spline
  by (auto simp: order_def BezierSpline_f0_def f0_def)

subsection \<open>Segmentation\<close>

lemma four_needs_mid:
  assumes "four_midpoints_at vl k" and "k \<le> i" and "i \<le> k + 3"
  shows "vtype (vl ! i) = MIDPOINT"
proof -
  from assms(2,3) have "i = k \<or> i = k + 1 \<or> i = k + 2 \<or> i = k + 3" by arith
  with assms(1) show ?thesis by (auto simp: four_midpoints_at_def)
qed

lemma long_run_skip_endpoint:
  assumes "vtype (vl ! i) = ENDPOINT" and "k0 \<le> i" and "i \<le> k0 + 3"
    and "\<forall>j. k0 \<le> j \<and> j < i \<longrightarrow> vtype (vl ! j) = MIDPOINT"
  shows "long_run_from vl k0 \<longleftrightarrow> long_run_from vl (i + 1)"
proof
  assume "long_run_from vl k0"
  then obtain k where k: "k0 \<le> k" "four_midpoints_at vl k"
    by (auto simp: long_run_from_def)
  have "i < k"
  proof (rule ccontr)
    assume "\<not> i < k"
    with k(1) assms(3) have "k \<le> i" "i \<le> k + 3" by auto
    from four_needs_mid [OF k(2) this] assms(1) show False by simp
  qed
  then have "i + 1 \<le> k" by simp
  with k(2) show "long_run_from vl (i + 1)"
    unfolding long_run_from_def by blast
next
  assume "long_run_from vl (i + 1)"
  then obtain k where k: "i + 1 \<le> k" "four_midpoints_at vl k"
    by (auto simp: long_run_from_def)
  from k(1) assms(2) have "k0 \<le> k" by simp
  with k(2) show "long_run_from vl k0"
    unfolding long_run_from_def by blast
qed

lemma long_run_at_endpoint:
  assumes "vtype (vl ! i) = ENDPOINT"
  shows "long_run_from vl i \<longleftrightarrow> long_run_from vl (i + 1)"
proof -
  have "\<forall>j. i \<le> j \<and> j < i \<longrightarrow> vtype (vl ! j) = MIDPOINT" by auto
  from long_run_skip_endpoint [OF assms _ _ this] show ?thesis by simp
qed

lemma no_long_run_at_end: "length vl \<le> k0 + 3 \<Longrightarrow> \<not> long_run_from vl k0"
  by (auto simp: long_run_from_def four_midpoints_at_def)

lemma seg_loop_outcome:
  "vtype (vl ! (length vl - 1)) = ENDPOINT \<Longrightarrow> i < length vl \<Longrightarrow>
   (state = ENDPOINT \<longrightarrow> vtype (vl ! i) = ENDPOINT \<and> i + 1 < length vl) \<Longrightarrow>
   (state = MIDPOINT \<longrightarrow> vertices \<noteq> [] \<and> length vertices \<le> i
       \<and> (\<forall>j. i + 1 - length vertices \<le> j \<and> j < i \<longrightarrow> vtype (vl ! j) = MIDPOINT)) \<Longrightarrow>
   seg_outcome vl (if state = ENDPOINT then i else i + 1 - length vertices)
     (seg_loop vl i state vertices splines)"
proof (induction vl i state vertices splines rule: seg_loop.induct)
  case (1 vl i state vertices splines)
  note last = "1.prems"(1) and lt = "1.prems"(2)
  show ?case
  proof (cases state)
    case ENDPOINT
    with "1.prems"(3) have ep: "vtype (vl ! i) = ENDPOINT" and i1: "i + 1 < length vl"
      by simp_all
    have step: "seg_loop vl i state vertices splines
        = seg_loop vl (i + 1) MIDPOINT [vertex (vl ! i)] splines"
      using lt ENDPOINT ep by (subst seg_loop.simps) simp
    have "MIDPOINT = ENDPOINT \<longrightarrow> vtype (vl ! (i + 1)) = ENDPOINT \<and> i + 1 + 1 < length vl"
      by simp
    moreover have "MIDPOINT = MIDPOINT \<longrightarrow> [vertex (vl ! i)] \<noteq> []
        \<and> length [vertex (vl ! i)] \<le> i + 1
        \<and> (\<forall>j. i + 1 + 1 - length [vertex (vl ! i)] \<le> j \<and> j < i + 1
              \<longrightarrow> vtype (vl ! j) = MIDPOINT)"
      by auto
    ultimately have
      "seg_outcome vl (i + 1) (seg_loop vl (i + 1) MIDPOINT [vertex (vl ! i)] splines)"
      using "1.IH"(1) [OF lt ENDPOINT ep last i1] by simp
    moreover have "long_run_from vl i \<longleftrightarrow> long_run_from vl (i + 1)"
      using long_run_at_endpoint [OF ep] .
    ultimately show ?thesis
      using ENDPOINT step by (simp add: seg_outcome_def)
  next
    case MIDPOINT
    then have ns: "state \<noteq> ENDPOINT" by simp
    from MIDPOINT "1.prems"(4) have ne: "vertices \<noteq> []" and le: "length vertices \<le> i"
      and mids: "\<forall>j. i + 1 - length vertices \<le> j \<and> j < i \<longrightarrow> vtype (vl ! j) = MIDPOINT"
      by simp_all
    from ne have pos: "1 \<le> length vertices" by (cases vertices) simp_all
    let ?k0 = "i + 1 - length vertices"
    show ?thesis
    proof (cases "vtype (vl ! i) = ENDPOINT")
      case ep: True
      show ?thesis
      proof (cases "length vertices \<le> 4")
        case short: True
        with pos NewBezierSpline_ok [of "vertices @ [vertex (vl ! i)]"] obtain s where
          s: "NewBezierSpline (vertices @ [vertex (vl ! i)]) = Inr s"
          by auto
        have k0: "?k0 \<le> i" "i \<le> ?k0 + 3" using short pos le by simp_all
        note skip = long_run_skip_endpoint [OF ep k0 mids]
        show ?thesis
        proof (cases "i = length vl - 1")
          case True
          have "seg_loop vl i state vertices splines = Inr (splines @ [s])"
            using lt ns ep s True by (subst seg_loop.simps) simp
          moreover have "\<not> long_run_from vl (i + 1)"
            using True lt by (intro no_long_run_at_end) simp
          ultimately show ?thesis
            using MIDPOINT skip by (simp add: seg_outcome_def)
        next
          case False
          have step: "seg_loop vl i state vertices splines
              = seg_loop vl i ENDPOINT (vertices @ [vertex (vl ! i)]) (splines @ [s])"
            using lt ns ep s False by (subst seg_loop.simps) simp
          from False lt have i1: "i + 1 < length vl" by simp
          have "seg_outcome vl i
              (seg_loop vl i ENDPOINT (vertices @ [vertex (vl ! i)]) (splines @ [s]))"
            using "1.IH"(2) [OF lt ns ep s False last lt] ep i1 by simp
          moreover have "long_run_from vl i \<longleftrightarrow> long_run_from vl (i + 1)"
            using long_run_at_endpoint [OF ep] .
          ultimately show ?thesis
            using MIDPOINT step skip by (simp add: seg_outcome_def)
        qed
      next
        case long: False
        then have "5 < length (vertices @ [vertex (vl ! i)])" by simp
        then have bad: "NewBezierSpline (vertices @ [vertex (vl ! i)])
            = Inl (BadPolynomialOrder (int (length vertices)))"
          using NewBezierSpline_bad [of "vertices @ [vertex (vl ! i)]"] by simp
        have res: "seg_loop vl i state vertices splines
            = Inl (BadPolynomialOrder (int (length vertices)))"
          using lt ns ep bad by (subst seg_loop.simps) simp
        have "vtype (vl ! (?k0 + d)) = MIDPOINT" if "d \<le> 3" for d
        proof -
          from that long le have "?k0 \<le> ?k0 + d \<and> ?k0 + d < i" by arith
          with mids show ?thesis by blast
        qed
        from this [of 0] this [of 1] this [of 2] this [of 3]
        have "vtype (vl ! ?k0) = MIDPOINT" "vtype (vl ! (?k0 + 1)) = MIDPOINT"
          "vtype (vl ! (?k0 + 2)) = MIDPOINT" "vtype (vl ! (?k0 + 3)) = MIDPOINT"
          by simp_all
        moreover from long le lt have "?k0 + 3 < length vl" by arith
        ultimately have "four_midpoints_at vl ?k0"
          unfolding four_midpoints_at_def by blast
        then have "long_run_from vl ?k0"
          by (auto simp: long_run_from_def)
        with res long MIDPOINT show ?thesis
          by (simp add: seg_outcome_def)
      qed
    next
      case mid: False
      have "i \<noteq> length vl - 1" using mid last by auto
      with lt have i1: "i + 1 < length vl" by simp
      have step: "seg_loop vl i state vertices splines
          = seg_loop vl (i + 1) MIDPOINT (vertices @ [vertex (vl ! i)]) splines"
        using lt ns mid by (subst seg_loop.simps) simp
      have mi: "vtype (vl ! i) = MIDPOINT" using mid by (cases "vtype (vl ! i)") simp_all
      have inv': "\<forall>j. i + 1 + 1 - length (vertices @ [vertex (vl ! i)]) \<le> j \<and> j < i + 1
            \<longrightarrow> vtype (vl ! j) = MIDPOINT"
      proof (intro allI impI)
        fix j assume j: "i + 1 + 1 - length (vertices @ [vertex (vl ! i)]) \<le> j \<and> j < i + 1"
        show "vtype (vl ! j) = MIDPOINT"
        proof (cases "j = i")
          case True
          with mi show ?thesis by simp
        next
          case False
          with j have "?k0 \<le> j \<and> j < i" by simp
          with mids show ?thesis by blast
        qed
      qed
      have "seg_outcome vl (i + 1 + 1 - length (vertices @ [vertex (vl ! i)]))
          (seg_loop vl (i + 1) MIDPOINT (vertices @ [vertex (vl ! i)]) splines)"
        using "1.IH"(3) [OF lt ns mid last i1] inv' le by simp
      with step MIDPOINT show ?thesis by simp
    qed
  qed
qed

lemma closure_shape:
  assumes "closure b = Inr b'"
  shows "closed b' = closed b"
    and "closed b \<Longrightarrow> vlist b' \<noteq> [] \<and> vtype (vlist b' ! (length (vlist b') - 1)) = ENDPOINT"
proof -
  show "closed b' = closed b"
    using assms by (auto simp: closure_def Let_def split: if_splits)
  show "vlist b' \<noteq> [] \<and> vtype (vlist b' ! (length (vlist b') - 1)) = ENDPOINT" if "closed b"
    using assms that by (auto simp: closure_def Let_def nth_append split: if_splits)
qed

lemma fixups_shape:
  assumes "fixups b = Inr b'"
  shows "2 \<le> length (vlist b')" and "vtype (vlist b' ! 0) = ENDPOINT"
    and "vtype (vlist b' ! (length (vlist b') - 1)) = ENDPOINT"
proof -
  from assms obtain c where c: "closure (handles b) = Inr c" and v: "validate c = Inr b'"
    by (auto simp: fixups_def split: sum.splits)
  from v have eq: "b' = c" and n: "2 \<le> length (vlist c)"
    and first: "vtype (vlist c ! 0) = ENDPOINT"
    and open_last: "\<not> closed c \<longrightarrow> vtype (vlist c ! (length (vlist c) - 1)) = ENDPOINT"
    by (auto simp: validate_def Let_def split: if_splits)
  from n eq show "2 \<le> length (vlist b')" by simp
  from first eq show "vtype (vlist b' ! 0) = ENDPOINT" by simp
  show "vtype (vlist b' ! (length (vlist b') - 1)) = ENDPOINT"
  proof (cases "closed c")
    case False
    with open_last eq show ?thesis by simp
  next
    case True
    with closure_shape [OF c] eq show ?thesis by simp
  qed
qed

text \<open>
  Claim C2: for a vertex list that \<open>fixups\<close> returned, if some run of vertices holds more
  than 3 midpoints in a row (4 midpoints from some index on), the segmentation of \<open>Polygon\<close>
  fails with the panic "bad polynomial order n" of \<open>Set\<close>, for an order \<open>n\<close> above 4, and so
  does \<open>Polygon\<close>; if every run has at most 3 midpoints, the segmentation returns its list
  of splines.
\<close>

theorem long_midpoint_run_fails:
  assumes "fixups b = Inr b'"
  shows "((\<exists>k. four_midpoints_at (vlist b') k) \<longrightarrow>
            (\<exists>n. 4 < n \<and> segment (vlist b') = Inl (BadPolynomialOrder n)
                 \<and> Polygon b = Inl (BadPolynomialOrder n)))
       \<and> ((\<nexists>k. four_midpoints_at (vlist b') k) \<longrightarrow> (\<exists>splines. segment (vlist b') = Inr splines))"
proof -
  note shape = fixups_shape [OF assms]
  from shape(1) have pos: "0 < length (vlist b')" by arith
  have e: "ENDPOINT = ENDPOINT \<longrightarrow> vtype (vlist b' ! 0) = ENDPOINT \<and> 0 + 1 < length (vlist b')"
    using shape by auto
  have m: "ENDPOINT = MIDPOINT \<longrightarrow> ([]::V2 list) \<noteq> [] \<and> length ([]::V2 list) \<le> 0
      \<and> (\<forall>j. 0 + 1 - length ([]::V2 list) \<le> j \<and> j < 0 \<longrightarrow> vtype (vlist b' ! j) = MIDPOINT)"
    by simp
  from seg_loop_outcome [OF shape(3) pos e m, of "[]"]
  have out: "seg_outcome (vlist b') 0 (segment (vlist b'))"
    by (simp add: segment_def)
  have long: "long_run_from (vlist b') 0 \<longleftrightarrow> (\<exists>k. four_midpoints_at (vlist b') k)"
    by (simp add: long_run_from_def)
  have poly: "Polygon b = Inl err" if "segment (vlist b') = Inl err" for err
    using assms that by (simp add: Polygon_def)
  show ?thesis
  proof (cases "\<exists>k. four_midpoints_at (vlist b') k")
    case True
    with out long obtain n where "4 < n" "segment (vlist b') = Inl (BadPolynomialOrder n)"
      by (auto simp: seg_outcome_def)
    with poly True show ?thesis by blast
  next
    case False
    with out long show ?thesis by (simp add: seg_outcome_def)
  qed
qed

theorem long_midpoint_run_fails_witness:
  "(\<exists>n. 4 < n \<and>
      segment (vlist (Add (on_last Mid (Add (on_last Mid (Add (on_last Mid (Add (on_last Mid
         (Add (Add NewBezier 0 0) 1 1)) 2 2)) 3 3)) 4 4)) 10 0)) = Inl (BadPolynomialOrder n))
   \<and> (\<exists>splines. segment (vlist (Add (on_last Mid (Add (Add NewBezier 0 0) 5 10)) 10 0)) = Inr splines)"
proof -
  let ?b4 = "Add (on_last Mid (Add (on_last Mid (Add (on_last Mid (Add (on_last Mid
         (Add (Add NewBezier 0 0) 1 1)) 2 2)) 3 3)) 4 4)) 10 0"
  let ?b1 = "Add (on_last Mid (Add (Add NewBezier 0 0) 5 10)) 10 0"
  have f4: "fixups ?b4 = Inr ?b4" by (simp add: curve_defs)
  have "four_midpoints_at (vlist ?b4) 1" by (simp add: four_midpoints_at_def api_defs)
  then have l4: "\<exists>k. four_midpoints_at (vlist ?b4) k" ..
  have l1: "\<nexists>k. four_midpoints_at (vlist ?b1) k"
    by (simp add: four_midpoints_at_def api_defs)
  from long_midpoint_run_fails [OF f4] l4 long_midpoint_run_fails [OF quad_fixups] l1 show ?thesis by blast
qed

end
